theory Spec2Isabelle
  imports Main
begin

section \<open>The deployment manifests\<close>

subsection \<open>docker-compose.yml as data\<close>

text \<open>
  The compose file is declarative: it is embedded as the value it denotes, every scalar
  kept as the text the file holds (durations, port mappings, volume mappings), with the
  readers of that text defined further down.
\<close>

record healthcheck_decl =
  test :: "string list"
  interval :: string
  timeout :: string
  retries :: nat
  start_period :: string

text \<open>
  \<open>depends_on\<close> has a short form (a list of service names) and a long form
  (a condition per service). The file uses the short form only.
\<close>

datatype dep_condition = Service_started | Service_healthy | Service_completed_successfully

datatype depends_decl =
    Short "string list"
  | Long "(string \<times> dep_condition) list"

record service =
  build :: "string option"
  image_ref :: "string option"
  ports :: "string list"
  environment :: "string list"
  volumes :: "string list"
  restart :: string
  healthcheck :: "healthcheck_decl option"
  depends_on :: depends_decl
  profiles :: "string list"

record compose =
  version :: string
  services :: "(string \<times> service) list"
  named_volumes :: "string list"

definition sql_schema_parser :: service where
  "sql_schema_parser =
     \<lparr> build = Some ''.'',
       image_ref = None,
       ports = [''8000:8000''],
       environment = [''PYTHONUNBUFFERED=1''],
       volumes = [''./logs:/app/logs''],
       restart = ''unless-stopped'',
       healthcheck = Some
         \<lparr> test = [''CMD'', ''curl'', ''-f'', ''http://localhost:8000/v1/health''],
           interval = ''30s'',
           timeout = ''10s'',
           retries = 3,
           start_period = ''40s'' \<rparr>,
       depends_on = Short [],
       profiles = [] \<rparr>"

definition nginx :: service where
  "nginx =
     \<lparr> build = None,
       image_ref = Some ''nginx:alpine'',
       ports = [''80:80''],
       environment = [],
       volumes = [''./nginx.conf:/etc/nginx/nginx.conf''],
       restart = ''unless-stopped'',
       healthcheck = None,
       depends_on = Short [''sql-schema-parser''],
       profiles = [''production''] \<rparr>"

definition docker_compose :: compose where
  "docker_compose =
     \<lparr> version = ''3.8'',
       services = [(''sql-schema-parser'', sql_schema_parser), (''nginx'', nginx)],
       named_volumes = [] \<rparr>"

subsection \<open>The Dockerfile as data\<close>

datatype instruction =
    FROM string
  | WORKDIR string
  | RUN string
  | ENV string string
  | COPY string string
  | EXPOSE string
  | HEALTHCHECK "string list" string
  | CMD "string list"
  | VOLUME "string list"

text \<open>
  \<open>HEALTHCHECK options CMD command\<close> carries its options and the shell-form command;
  \<open>CMD\<close> is in exec form (a JSON array). \<open>VOLUME\<close> is an instruction of the
  language that this Dockerfile does not use. Comment lines are left out, and a command
  written over continuation lines is joined into one line.
\<close>

definition dockerfile :: "instruction list" where
  "dockerfile =
     [ FROM ''python:3.11-slim'',
       WORKDIR ''/app'',
       RUN ''apt-get update && apt-get install -y curl && rm -rf /var/lib/apt/lists/*'',
       RUN ''curl -LsSf https://astral.sh/uv/install.sh | sh'',
       ENV ''PATH'' ''/root/.local/bin:$PATH'',
       COPY ''requirements.txt'' ''.'',
       RUN ''uv pip install --system -r requirements.txt'',
       COPY ''.'' ''.'',
       EXPOSE ''8000'',
       HEALTHCHECK [''--interval=30s'', ''--timeout=30s'', ''--start-period=5s'', ''--retries=3'']
         ''curl -f http://localhost:8000/v1/health || exit 1'',
       CMD [''uvicorn'', ''main:app'', ''--host'', ''0.0.0.0'', ''--port'', ''8000''] ]"

subsection \<open>Reading the scalars\<close>

definition digit_of :: "char \<Rightarrow> nat option" where
  "digit_of c =
     (let n = (of_char c :: nat)
      in if of_char (CHR ''0'') \<le> n \<and> n \<le> of_char (CHR ''9'')
         then Some (n - of_char (CHR ''0'')) else None)"

fun parse_digits :: "nat \<Rightarrow> string \<Rightarrow> nat option" where
  "parse_digits acc [] = Some acc"
| "parse_digits acc (c # cs) =
     (case digit_of c of None \<Rightarrow> None | Some d \<Rightarrow> parse_digits (10 * acc + d) cs)"

definition parse_nat :: "string \<Rightarrow> nat option" where
  "parse_nat s = (if s = [] then None else parse_digits 0 s)"

text \<open>A duration is a decimal number followed by one unit; the result is in seconds.\<close>

definition unit_seconds :: "string \<Rightarrow> nat option" where
  "unit_seconds u =
     (if u = ''s'' then Some 1 else if u = ''m'' then Some 60 else if u = ''h'' then Some 3600
      else None)"

definition parse_duration :: "string \<Rightarrow> nat option" where
  "parse_duration s =
     (let ds = takeWhile (\<lambda>c. digit_of c \<noteq> None) s;
          u = dropWhile (\<lambda>c. digit_of c \<noteq> None) s
      in case (parse_nat ds, unit_seconds u) of
           (Some n, Some k) \<Rightarrow> Some (n * k)
         | _ \<Rightarrow> None)"

text \<open>Splitting a text at a separator character; the pieces never hold the separator.\<close>

fun split_on :: "char \<Rightarrow> string \<Rightarrow> string list" where
  "split_on sep [] = [[]]"
| "split_on sep (c # cs) =
     (if c = sep then [] # split_on sep cs
      else (case split_on sep cs of
              [] \<Rightarrow> [[c]]
            | w # ws \<Rightarrow> (c # w) # ws))"

definition shell_words :: "string \<Rightarrow> string list" where
  "shell_words s = filter (\<lambda>w. w \<noteq> []) (split_on (CHR '' '') s)"

fun strip_prefix :: "string \<Rightarrow> string \<Rightarrow> string option" where
  "strip_prefix [] s = Some s"
| "strip_prefix (p # ps) [] = None"
| "strip_prefix (p # ps) (c # cs) = (if p = c then strip_prefix ps cs else None)"

fun arg_after :: "string \<Rightarrow> string list \<Rightarrow> string option" where
  "arg_after k [] = None"
| "arg_after k [a] = None"
| "arg_after k (a # b # r) = (if a = k then Some b else arg_after k (b # r))"

fun option_value :: "string \<Rightarrow> string list \<Rightarrow> string option" where
  "option_value name [] = None"
| "option_value name (opt # opts) =
     (case strip_prefix (''--'' @ name @ ''='') opt of
        Some v \<Rightarrow> Some v
      | None \<Rightarrow> option_value name opts)"

subsection \<open>Health checks\<close>

text \<open>
  Both manifests declare a health check; each is read into the same record, the times in
  seconds and the probe as the argument vector that is run.
\<close>

record probe_policy =
  probe_argv :: "string list"
  interval_s :: nat
  timeout_s :: nat
  retry_count :: nat
  start_period_s :: nat

text \<open>
  A shell-form command \<open>c || exit 1\<close> runs \<open>c\<close> first: the probe is the words up to
  the first \<open>||\<close>.
\<close>

definition shell_first_command :: "string \<Rightarrow> string list" where
  "shell_first_command c = takeWhile (\<lambda>w. w \<noteq> ''||'') (shell_words c)"

definition probe_command :: "string list \<Rightarrow> string list option" where
  "probe_command t =
     (case t of
        [] \<Rightarrow> None
      | k # args \<Rightarrow>
          if k = ''CMD'' then Some args
          else if k = ''CMD-SHELL'' then
            (case args of [c] \<Rightarrow> Some (shell_first_command c) | _ \<Rightarrow> None)
          else None)"

definition compose_policy :: "healthcheck_decl \<Rightarrow> probe_policy option" where
  "compose_policy h =
     (case (probe_command (test h), parse_duration (interval h), parse_duration (timeout h),
            parse_duration (start_period h)) of
        (Some a, Some i, Some t, Some s) \<Rightarrow>
          Some \<lparr> probe_argv = a, interval_s = i, timeout_s = t, retry_count = retries h,
                 start_period_s = s \<rparr>
      | _ \<Rightarrow> None)"

text \<open>Of several \<open>HEALTHCHECK\<close> or \<open>CMD\<close> instructions the last one takes effect.\<close>

fun healthcheck_of :: "instruction list \<Rightarrow> (string list \<times> string) option" where
  "healthcheck_of [] = None"
| "healthcheck_of (i # rest) =
     (case healthcheck_of rest of
        Some h \<Rightarrow> Some h
      | None \<Rightarrow> (case i of HEALTHCHECK os c \<Rightarrow> Some (os, c) | _ \<Rightarrow> None))"

fun cmd_of :: "instruction list \<Rightarrow> string list option" where
  "cmd_of [] = None"
| "cmd_of (i # rest) =
     (case cmd_of rest of
        Some c \<Rightarrow> Some c
      | None \<Rightarrow> (case i of CMD argv \<Rightarrow> Some argv | _ \<Rightarrow> None))"

definition image_policy :: "instruction list \<Rightarrow> probe_policy option" where
  "image_policy d =
     (case healthcheck_of d of
        None \<Rightarrow> None
      | Some (os, c) \<Rightarrow>
          (case (Option.bind (option_value ''interval'' os) parse_duration,
                 Option.bind (option_value ''timeout'' os) parse_duration,
                 Option.bind (option_value ''start-period'' os) parse_duration,
                 Option.bind (option_value ''retries'' os) parse_nat) of
             (Some i, Some t, Some s, Some r) \<Rightarrow>
               Some \<lparr> probe_argv = shell_first_command c, interval_s = i, timeout_s = t,
                      retry_count = r, start_period_s = s \<rparr>
           | _ \<Rightarrow> None))"

definition timing :: "probe_policy \<Rightarrow> nat \<times> nat \<times> nat \<times> nat" where
  "timing p = (interval_s p, timeout_s p, retry_count p, start_period_s p)"

text \<open>The two declared health checks of the application service.\<close>

definition compose_healthcheck :: "probe_policy option" where
  "compose_healthcheck = Option.bind (healthcheck sql_schema_parser) compose_policy"

definition image_healthcheck :: "probe_policy option" where
  "image_healthcheck = image_policy dockerfile"

subsection \<open>Ports and URLs\<close>

text \<open>A port mapping \<open>PUBLISHED:TARGET\<close>: the host's port, then the container's.\<close>

definition parse_port_mapping :: "string \<Rightarrow> (nat \<times> nat) option" where
  "parse_port_mapping s =
     (case split_on (CHR '':'') s of
        [h, c] \<Rightarrow>
          (case (parse_nat h, parse_nat c) of
             (Some a, Some b) \<Rightarrow> Some (a, b)
           | _ \<Rightarrow> None)
      | _ \<Rightarrow> None)"

definition published_ports :: "service \<Rightarrow> (nat \<times> nat) list" where
  "published_ports s = List.map_filter parse_port_mapping (ports s)"

definition exposed_ports :: "instruction list \<Rightarrow> nat list" where
  "exposed_ports d =
     List.map_filter (\<lambda>i. case i of EXPOSE p \<Rightarrow> parse_nat p | _ \<Rightarrow> None) d"

definition listen_port :: "instruction list \<Rightarrow> nat option" where
  "listen_port d =
     Option.bind (Option.bind (cmd_of d) (arg_after ''--port'')) parse_nat"

text \<open>An \<open>http\<close> URL \<open>http://host[:port]/path\<close>; the port is 80 when none is written.\<close>

definition url_authority :: "string \<Rightarrow> string option" where
  "url_authority u =
     map_option (takeWhile (\<lambda>c. c \<noteq> CHR ''/'')) (strip_prefix ''http://'' u)"

definition url_path :: "string \<Rightarrow> string option" where
  "url_path u =
     map_option (dropWhile (\<lambda>c. c \<noteq> CHR ''/'')) (strip_prefix ''http://'' u)"

definition url_host :: "string \<Rightarrow> string option" where
  "url_host u = map_option (takeWhile (\<lambda>c. c \<noteq> CHR '':'')) (url_authority u)"

definition url_port :: "string \<Rightarrow> nat option" where
  "url_port u =
     (case url_authority u of
        None \<Rightarrow> None
      | Some a \<Rightarrow>
          (case split_on (CHR '':'') a of
             [h] \<Rightarrow> Some 80
           | [h, p] \<Rightarrow> parse_nat p
           | _ \<Rightarrow> None))"

text \<open>The URL a probe requests: the last argument of its command.\<close>

definition probe_url :: "probe_policy \<Rightarrow> string option" where
  "probe_url p = (if probe_argv p = [] then None else Some (last (probe_argv p)))"

subsection \<open>Environment and volumes\<close>

text \<open>An environment entry \<open>KEY=VALUE\<close> is split at its first \<open>=\<close>.\<close>

definition parse_env :: "string \<Rightarrow> string \<times> string" where
  "parse_env s =
     (takeWhile (\<lambda>c. c \<noteq> CHR ''='') s, drop 1 (dropWhile (\<lambda>c. c \<noteq> CHR ''='') s))"

definition env_lookup :: "service \<Rightarrow> string \<Rightarrow> string option" where
  "env_lookup s k = map_of (map parse_env (environment s)) k"

text \<open>
  A volume entry \<open>SOURCE:TARGET[:MODE]\<close>. A source that starts with \<open>.\<close>, \<open>/\<close> or
  \<open>~\<close> is a path of the host (a bind mount); any other source names a volume.
\<close>

definition parse_volume :: "string \<Rightarrow> (string \<times> string) option" where
  "parse_volume s =
     (case split_on (CHR '':'') s of
        [src, tgt] \<Rightarrow> Some (src, tgt)
      | [src, tgt, mode] \<Rightarrow> Some (src, tgt)
      | _ \<Rightarrow> None)"

definition is_host_path :: "string \<Rightarrow> bool" where
  "is_host_path src =
     (case src of
        [] \<Rightarrow> False
      | c # _ \<Rightarrow> c = CHR ''.'' \<or> c = CHR ''/'' \<or> c = CHR ''~'')"

definition is_relative_path :: "string \<Rightarrow> bool" where
  "is_relative_path src = (case src of [] \<Rightarrow> False | c # _ \<Rightarrow> c = CHR ''.'')"

definition service_mounts :: "service \<Rightarrow> (string \<times> string) list" where
  "service_mounts s = List.map_filter parse_volume (volumes s)"

definition all_mounts :: "compose \<Rightarrow> (string \<times> string \<times> string) list" where
  "all_mounts c =
     concat (map (\<lambda>(n, s). map (\<lambda>(src, tgt). (n, src, tgt)) (service_mounts s)) (services c))"

definition image_volumes :: "instruction list \<Rightarrow> string list" where
  "image_volumes d = concat (map (\<lambda>i. case i of VOLUME vs \<Rightarrow> vs | _ \<Rightarrow> []) d)"

subsection \<open>Profiles and start order\<close>

text \<open>
  A service with no \<open>profiles\<close> is always enabled; a service with profiles is enabled
  when one of them is active.
\<close>

definition service_enabled :: "string list \<Rightarrow> service \<Rightarrow> bool" where
  "service_enabled active s =
     (profiles s = [] \<or> list_ex (\<lambda>p. p \<in> set active) (profiles s))"

definition created_services :: "compose \<Rightarrow> string list \<Rightarrow> string list" where
  "created_services c active =
     map fst (filter (\<lambda>(n, s). service_enabled active s) (services c))"

text \<open>The host ports a deployment publishes: those of the services it creates.\<close>

definition published :: "compose \<Rightarrow> string list \<Rightarrow> (string \<times> nat \<times> nat) list" where
  "published c active =
     concat (map (\<lambda>(n, s). map (\<lambda>(h, t). (n, h, t)) (published_ports s))
       (filter (\<lambda>(n, s). service_enabled active s) (services c)))"

text \<open>The short form of \<open>depends_on\<close> waits for the dependency to be started, no more.\<close>

fun dependencies :: "depends_decl \<Rightarrow> (string \<times> dep_condition) list" where
  "dependencies (Short ns) = map (\<lambda>n. (n, Service_started)) ns"
| "dependencies (Long ds) = ds"

text \<open>
  A deployment maps the name of each container that exists to its health. Bringing the
  project up is a sequence of events: a container is created once its service is enabled
  and every dependency meets its condition; the health of an existing container may change
  at any time, in any way. An event that is not permitted stops the run. Containers do
  not exit here, so a dependency on a completed service is never met.
\<close>

datatype health = Starting | Healthy | Unhealthy

type_synonym deployment = "string \<rightharpoonup> health"

datatype event = Create string | Health string health

fun dep_ready :: "deployment \<Rightarrow> string \<times> dep_condition \<Rightarrow> bool" where
  "dep_ready d (m, Service_started) = (d m \<noteq> None)"
| "dep_ready d (m, Service_healthy) = (d m = Some Healthy)"
| "dep_ready d (m, Service_completed_successfully) = False"

fun apply_event :: "compose \<Rightarrow> string list \<Rightarrow> deployment \<Rightarrow> event \<Rightarrow> deployment option" where
  "apply_event c active d (Create n) =
     (case map_of (services c) n of
        None \<Rightarrow> None
      | Some s \<Rightarrow>
          if service_enabled active s \<and> d n = None
             \<and> list_all (dep_ready d) (dependencies (depends_on s))
          then Some (d(n \<mapsto> Starting))
          else None)"
| "apply_event c active d (Health n h) =
     (if d n = None then None else Some (d(n \<mapsto> h)))"

fun run :: "compose \<Rightarrow> string list \<Rightarrow> deployment \<Rightarrow> event list \<Rightarrow> deployment option" where
  "run c active d [] = Some d"
| "run c active d (e # es) =
     (case apply_event c active d e of
        None \<Rightarrow> None
      | Some d' \<Rightarrow> run c active d' es)"

subsection \<open>The proxy configuration\<close>

text \<open>
  Modelled from the spec: \<open>nginx.conf\<close>, which the nginx service mounts from the host
  and which is not among the sources. The spec says of it that the proxy listens on 80 and
  forwards to the application service's internal port.
\<close>

record nginx_conf =
  listen :: nat
  upstream_service :: string
  upstream_port :: nat

definition proxy_conf :: nginx_conf where
  "proxy_conf = \<lparr> listen = 80, upstream_service = ''sql-schema-parser'', upstream_port = 8000 \<rparr>"

section \<open>The landing page\<close>

text \<open>
  A component is a function that returns an element tree. Host elements and imported
  components whose source is absent (\<open>Button\<close>, \<open>ModeToggle\<close>, \<open>Link\<close>,
  \<open>GitBranch\<close>) are nodes named by their tag; \<open>Navbar\<close> is expanded where
  \<open>Home\<close> uses it. Text children are kept as the source writes them (the entity
  \<open>&copy;\<close> included); a JSX comment is no child.

  The only ambient input a component reads is the clock: \<open>new Date()\<close> is the
  parameter \<open>now\<close>, a local date and time, of which \<open>getFullYear\<close> reads the
  year.
\<close>

datatype prop_value = Str string | Num int

datatype jsx =
    Element string "(string \<times> prop_value) list" "jsx list"
  | Text string
  | Expr int

record js_date =
  year :: int
  month :: nat
  day :: nat
  hours :: nat
  minutes :: nat
  seconds :: nat
  milliseconds :: nat

definition getFullYear :: "js_date \<Rightarrow> int" where
  "getFullYear d = year d"

definition Navbar :: jsx where
  "Navbar =
     Element ''nav''
       [(''className'', Str ''w-full flex items-center justify-between p-6 sm:px-12 border-b border-border bg-background/80 backdrop-blur sticky top-0 z-10'')]
       [ Element ''span'' [(''className'', Str ''text-2xl font-bold tracking-tight select-none'')]
           [Text ''DummyDB''],
         Element ''div'' [(''className'', Str ''flex items-center gap-4'')]
           [ Element ''Button'' [] [Text ''Get Started''],
             Element ''Button'' [(''variant'', Str ''outline'')] [Text ''Docs''],
             Element ''ModeToggle'' [] [] ] ]"

definition Footer :: "js_date \<Rightarrow> jsx" where
  "Footer now =
     Element ''footer''
       [(''className'', Str ''w-full flex flex-col sm:flex-row justify-between items-center gap-2 py-4 px-8 text-xs text-muted-foreground border-t border-border mt-8'')]
       [ Element ''span'' []
           [Text ''&copy; '', Expr (getFullYear now), Text '' DummyDB. All rights reserved.''],
         Element ''Link''
           [(''href'', Str ''https://github.com/ghoshsoham71/DummyDB''),
            (''target'', Str ''_blank''),
            (''rel'', Str ''noopener noreferrer'')]
           [ Element ''Button'' [(''variant'', Str ''outline''), (''size'', Str ''sm'')]
               [Element ''GitBranch'' [(''size'', Num 18)] [], Text ''GitHub''] ] ]"

definition Home :: "js_date \<Rightarrow> jsx" where
  "Home now =
     Element ''div''
       [(''className'', Str ''font-sans min-h-screen flex flex-col bg-background text-foreground'')]
       [ Navbar,
         Element ''main''
           [(''className'', Str ''flex flex-1 flex-col items-center justify-center text-center gap-8 px-4'')]
           [ Element ''h1''
               [(''className'', Str ''text-4xl sm:text-6xl font-bold tracking-tight mb-2'')]
               [Text ''Generate Fake Data Instantly''],
             Element ''p''
               [(''className'', Str ''text-lg sm:text-2xl max-w-xl text-muted-foreground mb-6'')]
               [Text ''Effortlessly create realistic mock data for SQL, NoSQL, and Graph databases. Perfect for testing, prototyping, and demos.''],
             Element ''Button'' [(''size'', Str ''lg'')] [Text ''Get Started''] ],
         Element ''footer''
           [(''className'', Str ''w-full flex justify-center items-center py-4 text-xs text-muted-foreground border-t border-border mt-8'')]
           [Text ''&copy; '', Expr (getFullYear now), Text '' DummyDB. All rights reserved.''] ]"

text \<open>A render of one of the three components at a moment of the clock.\<close>

datatype component = Home_page | Navbar_component | Footer_component

fun render :: "component \<Rightarrow> js_date \<Rightarrow> jsx" where
  "render Home_page now = Home now"
| "render Navbar_component now = Navbar"
| "render Footer_component now = Footer now"

text \<open>The numbers a tree shows, left to right: what \<open>{...}\<close> expressions put in it.\<close>

fun shown_numbers :: "jsx \<Rightarrow> int list" where
  "shown_numbers (Element t ps cs) = concat (map shown_numbers cs)"
| "shown_numbers (Text s) = []"
| "shown_numbers (Expr n) = [n]"

section \<open>What the manifests declare\<close>

subsection \<open>Evaluating the readers on the two files\<close>

lemma compose_healthcheck_value:
  "compose_healthcheck =
     Some \<lparr> probe_argv = [''curl'', ''-f'', ''http://localhost:8000/v1/health''],
            interval_s = 30, timeout_s = 10, retry_count = 3, start_period_s = 40 \<rparr>"
  by code_simp

lemma image_healthcheck_value:
  "image_healthcheck =
     Some \<lparr> probe_argv = [''curl'', ''-f'', ''http://localhost:8000/v1/health''],
            interval_s = 30, timeout_s = 30, retry_count = 3, start_period_s = 5 \<rparr>"
  by code_simp

lemma health_url_port: "url_port ''http://localhost:8000/v1/health'' = Some 8000"
  by code_simp

lemma health_url_path: "url_path ''http://localhost:8000/v1/health'' = Some ''/v1/health''"
  by code_simp

lemma dockerfile_listen_port: "listen_port dockerfile = Some 8000"
  by code_simp

lemma dockerfile_exposed_ports: "exposed_ports dockerfile = [8000]"
  by code_simp

lemma created_default: "created_services docker_compose [] = [''sql-schema-parser'']"
  by code_simp

lemma created_production:
  "created_services docker_compose [''production''] = [''sql-schema-parser'', ''nginx'']"
  by code_simp

lemma lookup_nginx: "map_of (services docker_compose) ''nginx'' = Some nginx"
  by (simp add: docker_compose_def)

lemma lookup_app: "map_of (services docker_compose) ''sql-schema-parser'' = Some sql_schema_parser"
  by (simp add: docker_compose_def)

lemma nginx_dependencies:
  "dependencies (depends_on nginx) = [(''sql-schema-parser'', Service_started)]"
  by (simp add: nginx_def)

lemma published_default: "published docker_compose [] = [(''sql-schema-parser'', 8000, 8000)]"
  by code_simp

lemma published_production:
  "published docker_compose [''production'']
     = [(''sql-schema-parser'', 8000, 8000), (''nginx'', 80, 80)]"
  by code_simp

lemma nginx_published_ports: "published_ports nginx = [(80, 80)]"
  by code_simp

lemma mounts_value:
  "all_mounts docker_compose
     = [(''sql-schema-parser'', ''./logs'', ''/app/logs''),
        (''nginx'', ''./nginx.conf'', ''/etc/nginx/nginx.conf'')]"
  by code_simp

lemma dockerfile_no_volume: "image_volumes dockerfile = []"
  by code_simp

lemma no_named_volumes: "named_volumes docker_compose = []"
  by (simp add: docker_compose_def)

subsection \<open>Health checks\<close>

text \<open>
  C1. The application service has two declared health checks. The compose file probes
  \<open>/v1/health\<close> every 30s with a 10s timeout, 3 retries and a 40s start period; the
  Dockerfile probes the same path every 30s with a 30s timeout, 3 retries and a 5s start
  period. Taken field by field (interval, timeout, retries, start period) the two are not
  equal: they differ in the timeout and in the start period, and agree on the interval and
  the retries.
\<close>

theorem healthchecks_inconsistent:
  "map_option timing compose_healthcheck = Some (30, 10, 3, 40)
   \<and> map_option timing image_healthcheck = Some (30, 30, 3, 5)
   \<and> map_option timing compose_healthcheck \<noteq> map_option timing image_healthcheck
   \<and> map_option timeout_s compose_healthcheck \<noteq> map_option timeout_s image_healthcheck
   \<and> map_option start_period_s compose_healthcheck
       \<noteq> map_option start_period_s image_healthcheck
   \<and> map_option interval_s compose_healthcheck = map_option interval_s image_healthcheck
   \<and> map_option retry_count compose_healthcheck = map_option retry_count image_healthcheck
   \<and> Option.bind (Option.bind compose_healthcheck probe_url) url_path = Some ''/v1/health''
   \<and> Option.bind (Option.bind image_healthcheck probe_url) url_path = Some ''/v1/health''"
  by (simp add: compose_healthcheck_value image_healthcheck_value timing_def probe_url_def
      health_url_path)

text \<open>
  C9. The two health checks agree on the probe: each runs \<open>curl -f\<close> on the URL
  \<open>http://localhost:8000/v1/health\<close> with 3 retries, and the port of that URL is the
  port the image exposes and the port the application is started on, 8000.
\<close>

theorem healthchecks_same_probe:
  "map_option probe_argv compose_healthcheck
     = Some [''curl'', ''-f'', ''http://localhost:8000/v1/health'']
   \<and> map_option probe_argv image_healthcheck = map_option probe_argv compose_healthcheck
   \<and> map_option retry_count compose_healthcheck = Some 3
   \<and> map_option retry_count image_healthcheck = Some 3
   \<and> Option.bind (Option.bind compose_healthcheck probe_url) url_port = Some 8000
   \<and> Option.bind (Option.bind image_healthcheck probe_url) url_port = Some 8000
   \<and> exposed_ports dockerfile = [8000]
   \<and> listen_port dockerfile = Some 8000"
  by (simp add: compose_healthcheck_value image_healthcheck_value probe_url_def
      health_url_port dockerfile_exposed_ports dockerfile_listen_port)

subsection \<open>Profiles, ports, environment, volumes\<close>

text \<open>
  C3. With no profile active the deployment creates exactly one container, the application
  service, and no nginx proxy; with the profile \<open>production\<close> active it creates both.
  The proxy depends on the application service: it cannot be created first, and can be
  created once the application service's container exists.
\<close>

theorem profile_selects_services:
  "created_services docker_compose [] = [''sql-schema-parser'']
   \<and> length (created_services docker_compose []) = 1
   \<and> ''nginx'' \<notin> set (created_services docker_compose [])
   \<and> created_services docker_compose [''production''] = [''sql-schema-parser'', ''nginx'']
   \<and> map_option (\<lambda>s. dependencies (depends_on s)) (map_of (services docker_compose) ''nginx'')
       = Some [(''sql-schema-parser'', Service_started)]
   \<and> run docker_compose [''production''] Map.empty [Create ''nginx''] = None
   \<and> run docker_compose [''production''] Map.empty [Create ''sql-schema-parser'', Create ''nginx'']
       \<noteq> None
   \<and> run docker_compose [] Map.empty [Create ''sql-schema-parser'', Create ''nginx''] = None"
  by (simp add: created_default created_production lookup_nginx lookup_app nginx_dependencies
      service_enabled_def sql_schema_parser_def nginx_def)

text \<open>
  C5. The application is started on port 8000, the port the image exposes, and the compose
  file publishes it as host port 8000; that is the only published port when the proxy is
  not deployed. The nginx proxy publishes port 80, listens on it and forwards to the
  application service on the port the application listens on.
\<close>

theorem public_ports:
  "listen_port dockerfile = Some 8000
   \<and> exposed_ports dockerfile = [8000]
   \<and> published docker_compose [] = [(''sql-schema-parser'', 8000, 8000)]
   \<and> published docker_compose [''production'']
       = [(''sql-schema-parser'', 8000, 8000), (''nginx'', 80, 80)]
   \<and> published_ports nginx = [(80, 80)]
   \<and> listen proxy_conf = 80
   \<and> map_of (services docker_compose) (upstream_service proxy_conf) = Some sql_schema_parser
   \<and> Some (upstream_port proxy_conf) = listen_port dockerfile"
  by (simp add: dockerfile_listen_port dockerfile_exposed_ports published_default
      published_production nginx_published_ports proxy_conf_def lookup_app)

text \<open>
  C7. The application service's environment passes an output-buffering flag to the
  application process: the entry \<open>PYTHONUNBUFFERED=1\<close>, that is the variable
  \<open>PYTHONUNBUFFERED\<close> with the value \<open>1\<close>.
\<close>

theorem unbuffered_output_flag:
  "''PYTHONUNBUFFERED=1'' \<in> set (environment sql_schema_parser)
   \<and> env_lookup sql_schema_parser ''PYTHONUNBUFFERED'' = Some ''1''"
  by (simp add: sql_schema_parser_def env_lookup_def parse_env_def)

text \<open>
  C8. The deployment declares two mounts and no other persisted state: the log directory
  \<open>./logs\<close> on the application service and the proxy configuration \<open>./nginx.conf\<close>
  on the nginx service. Both sources are relative paths of the host, so both are bind
  mounts; the compose file names no volume and the Dockerfile declares none.
\<close>

theorem persisted_state_is_bind_mounted:
  "all_mounts docker_compose
     = [(''sql-schema-parser'', ''./logs'', ''/app/logs''),
        (''nginx'', ''./nginx.conf'', ''/etc/nginx/nginx.conf'')]
   \<and> list_all (\<lambda>(n, src, tgt). is_host_path src \<and> is_relative_path src)
        (all_mounts docker_compose)
   \<and> named_volumes docker_compose = []
   \<and> image_volumes dockerfile = []"
  by (simp add: mounts_value dockerfile_no_volume no_named_volumes is_host_path_def
      is_relative_path_def)

subsection \<open>Start order\<close>

lemma run_append:
  "run c active d (xs @ ys) = Option.bind (run c active d xs) (\<lambda>d'. run c active d' ys)"
  by (induction xs arbitrary: d) (auto split: option.splits)

lemma apply_event_dom:
  "apply_event c active d e = Some d' \<Longrightarrow>
     dom d' = dom d \<union> (case e of Create n \<Rightarrow> {n} | Health n h \<Rightarrow> {})"
  by (cases e) (auto split: option.splits if_splits)

text \<open>The containers that exist after a run are those that existed and those it created.\<close>

lemma run_dom:
  "run c active d evs = Some d' \<Longrightarrow> dom d' = dom d \<union> {n. Create n \<in> set evs}"
proof (induction evs arbitrary: d)
  case Nil
  then show ?case by simp
next
  case (Cons e es)
  then obtain d1 where e: "apply_event c active d e = Some d1"
    and r: "run c active d1 es = Some d'"
    by (auto split: option.splits)
  from Cons.IH [OF r] apply_event_dom [OF e] show ?case
    by (cases e) auto
qed

lemma create_nginx_needs_app:
  assumes "apply_event docker_compose active d (Create ''nginx'') = Some d'"
  shows "''sql-schema-parser'' \<in> dom d"
  using assms by (auto simp: lookup_nginx nginx_dependencies split: if_splits)

lemma run_until_nginx:
  assumes "run docker_compose active Map.empty (pre @ Create ''nginx'' # post) = Some d"
  shows "Create ''sql-schema-parser'' \<in> set pre"
proof -
  from assms obtain d1 d2 where p: "run docker_compose active Map.empty pre = Some d1"
    and e: "apply_event docker_compose active d1 (Create ''nginx'') = Some d2"
    by (auto simp: run_append split: option.splits Option.bind_splits)
  from create_nginx_needs_app [OF e] run_dom [OF p] show ?thesis by auto
qed

text \<open>
  C4. In every run of the deployment, whatever profiles are active, the creation of the
  nginx proxy comes after the creation of the application-service container, and so
  whenever the proxy exists the application-service container exists. The dependency waits
  for the container only, not for its health: its condition is \<open>Service_started\<close>, and
  there is a run in which the proxy is created while the application service is unhealthy.
\<close>

theorem proxy_starts_after_app_created:
  "(run docker_compose active Map.empty (pre @ Create ''nginx'' # post) = Some d
      \<longrightarrow> Create ''sql-schema-parser'' \<in> set pre)
   \<and> (run docker_compose active Map.empty evs = Some d \<longrightarrow> d ''nginx'' \<noteq> None
      \<longrightarrow> d ''sql-schema-parser'' \<noteq> None)
   \<and> dependencies (depends_on nginx) = [(''sql-schema-parser'', Service_started)]
   \<and> (\<exists>d'. run docker_compose [''production''] Map.empty
              [Create ''sql-schema-parser'', Health ''sql-schema-parser'' Unhealthy,
               Create ''nginx'']
            = Some d'
          \<and> d' ''nginx'' = Some Starting \<and> d' ''sql-schema-parser'' = Some Unhealthy)"
proof (intro conjI impI)
  assume "run docker_compose active Map.empty (pre @ Create ''nginx'' # post) = Some d"
  then show "Create ''sql-schema-parser'' \<in> set pre" by (rule run_until_nginx)
next
  assume r: "run docker_compose active Map.empty evs = Some d" and n: "d ''nginx'' \<noteq> None"
  from run_dom [OF r] n have "Create ''nginx'' \<in> set evs" by auto
  then obtain pre post where s: "evs = pre @ Create ''nginx'' # post"
    by (auto simp: in_set_conv_decomp)
  from r s have "Create ''sql-schema-parser'' \<in> set pre" by (auto dest: run_until_nginx)
  with s have "Create ''sql-schema-parser'' \<in> set evs" by auto
  with run_dom [OF r] show "d ''sql-schema-parser'' \<noteq> None" by auto
next
  show "dependencies (depends_on nginx) = [(''sql-schema-parser'', Service_started)]"
    by (rule nginx_dependencies)
next
  show "\<exists>d'. run docker_compose [''production''] Map.empty
              [Create ''sql-schema-parser'', Health ''sql-schema-parser'' Unhealthy,
               Create ''nginx'']
            = Some d'
          \<and> d' ''nginx'' = Some Starting \<and> d' ''sql-schema-parser'' = Some Unhealthy"
    by (simp add: lookup_nginx lookup_app nginx_dependencies service_enabled_def
        sql_schema_parser_def nginx_def)
qed

theorem proxy_starts_after_app_created_witness:
  "run docker_compose [''production''] Map.empty
       ([Create ''sql-schema-parser''] @ Create ''nginx'' # [])
     = Some [''sql-schema-parser'' \<mapsto> Starting, ''nginx'' \<mapsto> Starting]
   \<and> Create ''sql-schema-parser'' \<in> set [Create ''sql-schema-parser'']
   \<and> [''sql-schema-parser'' \<mapsto> Starting, ''nginx'' \<mapsto> Starting] ''nginx'' \<noteq> None
   \<and> [''sql-schema-parser'' \<mapsto> Starting, ''nginx'' \<mapsto> Starting] ''sql-schema-parser''
       \<noteq> None"
proof -
  have h: "run docker_compose [''production''] Map.empty
       ([Create ''sql-schema-parser''] @ Create ''nginx'' # [])
     = Some [''sql-schema-parser'' \<mapsto> Starting, ''nginx'' \<mapsto> Starting]"
    by (simp add: lookup_nginx lookup_app nginx_dependencies service_enabled_def
        sql_schema_parser_def nginx_def)
  from h proxy_starts_after_app_created [of "[''production'']" "[Create ''sql-schema-parser'']"
      "[]" "[''sql-schema-parser'' \<mapsto> Starting, ''nginx'' \<mapsto> Starting]"
      "[Create ''sql-schema-parser''] @ Create ''nginx'' # []"]
  show ?thesis by simp
qed

section \<open>What the landing page renders\<close>

text \<open>
  C10. Home, Navbar and Footer are deterministic functions of one input that varies from
  run to run, the current year read through \<open>getFullYear\<close>: two renders of a component
  at moments of the same year give the same tree. Navbar reads no date and gives the same
  tree at any two moments. The year is a real input of Footer and Home: two renders of
  either agree only if the years agree.
\<close>

theorem render_depends_on_year_only:
  "(getFullYear a = getFullYear b \<longrightarrow> render c a = render c b)
   \<and> render Navbar_component a = render Navbar_component b
   \<and> (render Footer_component a = render Footer_component b
        \<longrightarrow> getFullYear a = getFullYear b)
   \<and> (render Home_page a = render Home_page b \<longrightarrow> getFullYear a = getFullYear b)"
  by (cases c) (simp_all add: Home_def Footer_def)

theorem render_depends_on_year_only_witness:
  "getFullYear \<lparr>year = 2026, month = 10, day = 3, hours = 9, minutes = 30, seconds = 0,
       milliseconds = 0\<rparr>
     = getFullYear \<lparr>year = 2026, month = 0, day = 1, hours = 0, minutes = 0, seconds = 0,
         milliseconds = 1\<rparr>
   \<and> render Footer_component \<lparr>year = 2026, month = 10, day = 3, hours = 9, minutes = 30,
         seconds = 0, milliseconds = 0\<rparr>
     = render Footer_component \<lparr>year = 2026, month = 0, day = 1, hours = 0, minutes = 0,
         seconds = 0, milliseconds = 1\<rparr>
   \<and> shown_numbers (render Footer_component \<lparr>year = 2026, month = 10, day = 3, hours = 9,
         minutes = 30, seconds = 0, milliseconds = 0\<rparr>) = [2026]"
proof -
  have y: "getFullYear \<lparr>year = 2026, month = 10, day = 3, hours = 9, minutes = 30,
       seconds = 0, milliseconds = 0\<rparr>
     = getFullYear \<lparr>year = 2026, month = 0, day = 1, hours = 0, minutes = 0, seconds = 0,
         milliseconds = 1\<rparr>"
    by (simp add: getFullYear_def)
  have n: "shown_numbers (render Footer_component \<lparr>year = 2026, month = 10, day = 3,
       hours = 9, minutes = 30, seconds = 0, milliseconds = 0\<rparr>) = [2026]"
    by (simp add: Footer_def getFullYear_def)
  from y n render_depends_on_year_only
    [of "\<lparr>year = 2026, month = 10, day = 3, hours = 9, minutes = 30, seconds = 0,
          milliseconds = 0\<rparr>"
        "\<lparr>year = 2026, month = 0, day = 1, hours = 0, minutes = 0, seconds = 0,
          milliseconds = 1\<rparr>"
        Footer_component]
  show ?thesis by blast
qed

end
